theory Spec2Isabelle
  imports Complex_Main "HOL-Library.Word"
begin

section \<open>The plotter component (src/App.vue)\<close>

text \<open>
  The script block of \<^verbatim>\<open>App.vue\<close> holds the whole program: the reactive state of the form,
  the palette, and \<^verbatim>\<open>plotGraph\<close>, which validates the form, samples every expression and
  hands the series to the charting library.

  Three things come from outside the file and are parameters of the model: the expression
  library (\<^verbatim>\<open>mathjs\<close>), the formatting of numbers, and the rounding of double-precision
  arithmetic.
\<close>

subsection \<open>Strings\<close>

text \<open>
  A JavaScript string is a sequence of 16-bit code units. \<open>str\<close> gives the code units of an
  ASCII literal.
\<close>

type_synonym jsstring = "16 word list"

definition codeUnit :: "char \<Rightarrow> 16 word" where
  "codeUnit c = of_nat (of_char c)"

definition str :: "string \<Rightarrow> jsstring" where
  "str cs = map codeUnit cs"

text \<open>
  What \<^verbatim>\<open>String.prototype.trim\<close> strips: the white space and the line terminators of
  ECMAScript (tab, line feed, vertical tab, form feed, carriage return, space, no-break
  space, the space separators U+1680, U+2000 to U+200A, U+202F, U+205F and U+3000, the line
  and paragraph separators U+2028 and U+2029, and the byte order mark U+FEFF).
\<close>

definition is_space :: "16 word \<Rightarrow> bool" where
  "is_space c \<longleftrightarrow>
     c \<in> {0x0009, 0x000A, 0x000B, 0x000C, 0x000D, 0x0020, 0x00A0, 0x1680,
          0x2028, 0x2029, 0x202F, 0x205F, 0x3000, 0xFEFF}
     \<or> (0x2000 \<le> c \<and> c \<le> 0x200A)"

definition trim :: "jsstring \<Rightarrow> jsstring" where
  "trim s = rev (dropWhile is_space (rev (dropWhile is_space s)))"

text \<open>\<^verbatim>\<open>value.match(/[xX]/)\<close> is truthy when some code unit is \<^verbatim>\<open>x\<close> or \<^verbatim>\<open>X\<close>.\<close>

definition match_xX :: "jsstring \<Rightarrow> bool" where
  "match_xX s = list_ex (\<lambda>c. c = codeUnit CHR ''x'' \<or> c = codeUnit CHR ''X'') s"

subsection \<open>Numbers\<close>

text \<open>
  A JavaScript number is an IEEE double: a finite value, an infinity or NaN. The two zeros
  are one value here, \<open>Finite 0\<close>.
\<close>

datatype jsnumber = Finite real | PosInfinity | NegInfinity | NaN

fun isFinite :: "jsnumber \<Rightarrow> bool" where
  "isFinite (Finite r) = True"
| "isFinite PosInfinity = False"
| "isFinite NegInfinity = False"
| "isFinite NaN = False"

text \<open>
  What a form field bound with \<^verbatim>\<open>v-model.number\<close> can hold: a finite number, or the empty
  string that a cleared number input leaves behind (\<^verbatim>\<open>parseFloat('')\<close> is NaN, so the
  directive keeps the string). \<^verbatim>\<open>null\<close> is what the code itself tests for.
\<close>

datatype fieldval = Null | EmptyString | Num real

text \<open>\<^verbatim>\<open>ToNumber\<close> on a field: \<^verbatim>\<open>null\<close> and \<^verbatim>\<open>''\<close> both convert to 0.\<close>

fun toNumber :: "fieldval \<Rightarrow> real" where
  "toNumber Null = 0"
| "toNumber EmptyString = 0"
| "toNumber (Num r) = r"

text \<open>
  \<^verbatim>\<open>a >= b\<close>: two strings are compared as strings (\<^verbatim>\<open>'' >= ''\<close> holds), anything else
  numerically after \<^verbatim>\<open>ToNumber\<close>.
\<close>

fun js_ge :: "fieldval \<Rightarrow> fieldval \<Rightarrow> bool" where
  "js_ge EmptyString EmptyString = True"
| "js_ge a b = (toNumber a \<ge> toNumber b)"

text \<open>A sampled domain point: a number, or a string when \<^verbatim>\<open>minX\<close> was the empty string.\<close>

datatype xvalue = XNum jsnumber | XStr jsstring

text \<open>
  What evaluating a compiled expression can return: a JavaScript number, or something whose
  \<^verbatim>\<open>typeof\<close> is not \<^verbatim>\<open>'number'\<close> (\<open>Object\<close> stands for matrices, units, big numbers and the
  like).
\<close>

datatype mathval =
    Number jsnumber
  | Complex real real
  | Boolean bool
  | Text jsstring
  | Object
  | Undefined

text \<open>
  \<^verbatim>\<open>typeof y === 'number' && isFinite(y) ? y : null\<close>. The conjunction short-circuits, so
  \<^verbatim>\<open>isFinite\<close> only ever sees a number.
\<close>

fun ySample :: "mathval \<Rightarrow> real option" where
  "ySample (Number n) = (if isFinite n then (case n of Finite r \<Rightarrow> Some r | _ \<Rightarrow> None) else None)"
| "ySample _ = None"

subsection \<open>The platform\<close>

text \<open>
  \<^verbatim>\<open>math.compile\<close> either throws (\<open>Inl\<close> of the message) or returns a compiled expression,
  whose \<^verbatim>\<open>evaluate({x: x})\<close> either throws or returns a value. \<^verbatim>\<open>toFixed\<close> is
  \<^verbatim>\<open>Number.prototype.toFixed\<close>, \<^verbatim>\<open>toString\<close> the conversion used by string concatenation.
  \<open>binary64\<close> is the rounding of the arithmetic: the double nearest to the exact result of
  an operation, or an infinity when the exact result lies beyond the doubles.
\<close>

record platform =
  math_compile :: "jsstring \<Rightarrow> jsstring + (xvalue \<Rightarrow> jsstring + mathval)"
  toFixed :: "jsnumber \<Rightarrow> nat \<Rightarrow> jsstring"
  toString :: "jsnumber \<Rightarrow> jsstring"
  binary64 :: "real \<Rightarrow> jsnumber"

subsection \<open>Arithmetic\<close>

text \<open>
  The four operations on doubles: the special cases of IEEE 754 written out, and the exact
  result of two finite operands rounded by the platform. A division by zero is one by
  \<open>+0\<close>.
\<close>

fun negate :: "jsnumber \<Rightarrow> jsnumber" where
  "negate (Finite x) = Finite (- x)"
| "negate PosInfinity = NegInfinity"
| "negate NegInfinity = PosInfinity"
| "negate NaN = NaN"

fun js_plus :: "platform \<Rightarrow> jsnumber \<Rightarrow> jsnumber \<Rightarrow> jsnumber" where
  "js_plus P NaN b = NaN"
| "js_plus P a NaN = NaN"
| "js_plus P PosInfinity NegInfinity = NaN"
| "js_plus P NegInfinity PosInfinity = NaN"
| "js_plus P PosInfinity b = PosInfinity"
| "js_plus P NegInfinity b = NegInfinity"
| "js_plus P a PosInfinity = PosInfinity"
| "js_plus P a NegInfinity = NegInfinity"
| "js_plus P (Finite x) (Finite y) = binary64 P (x + y)"

definition js_minus :: "platform \<Rightarrow> jsnumber \<Rightarrow> jsnumber \<Rightarrow> jsnumber" where
  "js_minus P a b = js_plus P a (negate b)"

text \<open>The infinity of a given sign.\<close>

definition signedInfinity :: "bool \<Rightarrow> jsnumber" where
  "signedInfinity positive = (if positive then PosInfinity else NegInfinity)"

fun js_times :: "platform \<Rightarrow> jsnumber \<Rightarrow> jsnumber \<Rightarrow> jsnumber" where
  "js_times P NaN b = NaN"
| "js_times P a NaN = NaN"
| "js_times P PosInfinity PosInfinity = PosInfinity"
| "js_times P PosInfinity NegInfinity = NegInfinity"
| "js_times P NegInfinity PosInfinity = NegInfinity"
| "js_times P NegInfinity NegInfinity = PosInfinity"
| "js_times P PosInfinity (Finite y) = (if y = 0 then NaN else signedInfinity (0 < y))"
| "js_times P NegInfinity (Finite y) = (if y = 0 then NaN else signedInfinity (y < 0))"
| "js_times P (Finite x) PosInfinity = (if x = 0 then NaN else signedInfinity (0 < x))"
| "js_times P (Finite x) NegInfinity = (if x = 0 then NaN else signedInfinity (x < 0))"
| "js_times P (Finite x) (Finite y) = binary64 P (x * y)"

fun js_divide :: "platform \<Rightarrow> jsnumber \<Rightarrow> jsnumber \<Rightarrow> jsnumber" where
  "js_divide P NaN b = NaN"
| "js_divide P a NaN = NaN"
| "js_divide P PosInfinity PosInfinity = NaN"
| "js_divide P PosInfinity NegInfinity = NaN"
| "js_divide P NegInfinity PosInfinity = NaN"
| "js_divide P NegInfinity NegInfinity = NaN"
| "js_divide P PosInfinity (Finite y) = signedInfinity (0 \<le> y)"
| "js_divide P NegInfinity (Finite y) = signedInfinity (y < 0)"
| "js_divide P (Finite x) PosInfinity = Finite 0"
| "js_divide P (Finite x) NegInfinity = Finite 0"
| "js_divide P (Finite x) (Finite y) =
     (if y = 0 then (if x = 0 then NaN else signedInfinity (0 < x))
      else binary64 P (x / y))"

subsection \<open>State\<close>

record expression =
  expr_id :: nat
  expr_value :: jsstring

record dataset =
  label :: jsstring
  data :: "real option list"
  borderColor :: jsstring
  tension :: real
  fill :: bool
  pointRadius :: nat
  pointHoverRadius :: nat

record chart =
  labels :: "jsstring list"
  datasets :: "dataset list"

text \<open>
  \<open>chartCanvas\<close> tells whether the canvas element is mounted; \<open>destroyed\<close> logs the charts
  on which \<^verbatim>\<open>destroy()\<close> has been called, oldest first.
\<close>

record state =
  expressions :: "expression list"
  minX :: fieldval
  maxX :: fieldval
  numPoints :: fieldval
  errorMessage :: jsstring
  loading :: bool
  chartCanvas :: bool
  chartInstance :: "chart option"
  destroyed :: "chart list"

subsection \<open>Palette\<close>

definition lineColors :: "jsstring list" where
  "lineColors =
    [str ''rgb(75, 192, 192)'',
     str ''rgb(255, 99, 132)'',
     str ''rgb(54, 162, 235)'',
     str ''rgb(255, 206, 86)'',
     str ''rgb(153, 102, 255)'',
     str ''rgb(255, 159, 64)'',
     str ''rgb(201, 203, 207)'']"

definition getLineColor :: "nat \<Rightarrow> jsstring" where
  "getLineColor index = lineColors ! (index mod length lineColors)"

subsection \<open>Blank rows\<close>

text \<open>\<^verbatim>\<open>!expr.value.trim()\<close>: the empty string is the only falsy string.\<close>

definition blank :: "expression \<Rightarrow> bool" where
  "blank e \<longleftrightarrow> trim (expr_value e) = []"

subsection \<open>Sampling the domain\<close>

text \<open>
  \<^verbatim>\<open>minX.value + i * step\<close>: a number plus a number, or, when the left operand is a string,
  the concatenation of the string with the number's text.
\<close>

fun js_add :: "platform \<Rightarrow> fieldval \<Rightarrow> jsnumber \<Rightarrow> xvalue" where
  "js_add P (Num a) r = XNum (js_plus P (Finite a) r)"
| "js_add P Null r = XNum (js_plus P (Finite 0) r)"
| "js_add P EmptyString r = XStr ([] @ toString P r)"

text \<open>
  \<^verbatim>\<open>for (let i = 0; i < numPoints.value; i++) xValues.push(minX.value + i * step)\<close>. The
  counter is a whole number below 1001 and so exact.
\<close>

function xLoop ::
  "platform \<Rightarrow> fieldval \<Rightarrow> jsnumber \<Rightarrow> real \<Rightarrow> nat \<Rightarrow> xvalue list \<Rightarrow> xvalue list" where
  "xLoop P lo step n i xValues =
     (if real i < n
      then xLoop P lo step n (Suc i) (xValues @ [js_add P lo (js_times P (Finite (real i)) step)])
      else xValues)"
  by pat_completeness auto
termination
  by (relation "measure (\<lambda>(P, lo, step, n, i, xValues). nat \<lceil>n\<rceil> - i)") (auto, linarith)

declare xLoop.simps [simp del]

text \<open>\<^verbatim>\<open>const step = (maxX.value - minX.value) / (numPoints.value - 1)\<close>\<close>

definition stepOf :: "platform \<Rightarrow> state \<Rightarrow> jsnumber" where
  "stepOf P s =
     js_divide P
       (js_minus P (Finite (toNumber (maxX s))) (Finite (toNumber (minX s))))
       (js_minus P (Finite (toNumber (numPoints s))) (Finite 1))"

definition sampleDomain :: "platform \<Rightarrow> state \<Rightarrow> xvalue list" where
  "sampleDomain P s = xLoop P (minX s) (stepOf P s) (toNumber (numPoints s)) 0 []"

subsection \<open>Sampling the expressions\<close>

text \<open>
  How a plot request ends: one constructor for each \<^verbatim>\<open>return\<close> of \<^verbatim>\<open>plotGraph\<close>, in the
  order of the source, \<open>Plotted\<close> for running to the end, and \<open>TypeError\<close> for the
  exception that \<^verbatim>\<open>x.toFixed\<close> raises on a string, which nothing catches.
\<close>

datatype exit =
    EmptyInput
  | BadRange
  | BadSampleCount
  | ParseFailed
  | EvalFailed
  | NoValidExpressions
  | Plotted
  | TypeError

text \<open>How the loops stop early: a message to show together with the return taken, or the exception.\<close>

datatype abort = Message exit jsstring | Uncaught

text \<open>\<^verbatim>\<open>x.toFixed(2)\<close> exists on numbers only.\<close>

fun toFixed2 :: "platform \<Rightarrow> xvalue \<Rightarrow> jsstring option" where
  "toFixed2 P (XNum r) = Some (toFixed P r 2)"
| "toFixed2 P (XStr t) = None"

text \<open>The two templates; \<open>0x22\<close> is the double quote.\<close>

definition parseMessage :: "jsstring \<Rightarrow> jsstring \<Rightarrow> jsstring" where
  "parseMessage v m = str ''Error parsing '' @ [0x22] @ v @ [0x22] @ str '': '' @ m"

definition evalMessage :: "jsstring \<Rightarrow> jsstring \<Rightarrow> jsstring \<Rightarrow> jsstring" where
  "evalMessage v x m =
     str ''Error evaluating '' @ [0x22] @ v @ [0x22] @ str '' at x='' @ x @ str '': '' @ m"

text \<open>
  The inner loop, \<^verbatim>\<open>for (const x of xValues)\<close>: push the sample, or on an exception build
  the message (which itself throws when \<^verbatim>\<open>x\<close> is a string) and return.
\<close>

fun sampleLoop ::
  "platform \<Rightarrow> jsstring \<Rightarrow> (xvalue \<Rightarrow> jsstring + mathval) \<Rightarrow> xvalue list \<Rightarrow> real option list
     \<Rightarrow> abort + real option list" where
  "sampleLoop P v compiledExpr [] yValues = Inr yValues"
| "sampleLoop P v compiledExpr (x # xs) yValues =
     (case compiledExpr x of
        Inr y \<Rightarrow> sampleLoop P v compiledExpr xs (yValues @ [ySample y])
      | Inl m \<Rightarrow>
          (case toFixed2 P x of
             Some t \<Rightarrow> Inl (Message EvalFailed (evalMessage v t m))
           | None \<Rightarrow> Inl Uncaught))"

text \<open>
  The outer loop, \<^verbatim>\<open>for (let i = 0; i < expressions.value.length; i++)\<close>: \<open>i\<close> is the index
  of the entry in the whole list, blank entries included.
\<close>

fun exprLoop ::
  "platform \<Rightarrow> xvalue list \<Rightarrow> expression list \<Rightarrow> nat \<Rightarrow> dataset list \<Rightarrow> abort + dataset list" where
  "exprLoop P xValues [] i ds = Inr ds"
| "exprLoop P xValues (currentExpression # rest) i ds =
     (if blank currentExpression then exprLoop P xValues rest (Suc i) ds
      else
        (case math_compile P (expr_value currentExpression) of
           Inl m \<Rightarrow> Inl (Message ParseFailed (parseMessage (expr_value currentExpression) m))
         | Inr compiledExpr \<Rightarrow>
             (case sampleLoop P (expr_value currentExpression) compiledExpr xValues [] of
                Inl a \<Rightarrow> Inl a
              | Inr yValues \<Rightarrow>
                  exprLoop P xValues rest (Suc i)
                    (ds @
                     [\<lparr>label = str ''y = '' @ expr_value currentExpression,
                       data = yValues,
                       borderColor = getLineColor i,
                       tension = 1 / 10,
                       fill = False,
                       pointRadius = (if match_xX (expr_value currentExpression) then 0 else 3),
                       pointHoverRadius = 5\<rparr>]))))"

subsection \<open>Rendering\<close>

text \<open>\<^verbatim>\<open>if (chartInstance) chartInstance.destroy()\<close>\<close>

definition destroyChart :: "state \<Rightarrow> state" where
  "destroyChart s =
     (case chartInstance s of
        None \<Rightarrow> s
      | Some c \<Rightarrow> s\<lparr>destroyed := destroyed s @ [c]\<rparr>)"

text \<open>\<^verbatim>\<open>xValues.map((val) => val.toFixed(2))\<close>, which throws at the first string.\<close>

fun labelsOf :: "platform \<Rightarrow> xvalue list \<Rightarrow> jsstring list option" where
  "labelsOf P [] = Some []"
| "labelsOf P (x # xs) =
     (case toFixed2 P x of
        None \<Rightarrow> None
      | Some t \<Rightarrow> (case labelsOf P xs of None \<Rightarrow> None | Some ts \<Rightarrow> Some (t # ts)))"

text \<open>
  Lines 173 to 209: what happens once the loops have produced the datasets. The options
  object passed to the chart is a constant and is left out of \<^typ>\<open>chart\<close>.
\<close>

definition render :: "platform \<Rightarrow> state \<Rightarrow> xvalue list \<Rightarrow> dataset list \<Rightarrow> exit \<times> state" where
  "render P s xValues ds =
     (if ds = [] then
        (NoValidExpressions,
         (destroyChart (s\<lparr>errorMessage := str ''No valid expressions to plot.''\<rparr>))
           \<lparr>chartInstance := None, loading := False\<rparr>)
      else
        (let s1 = destroyChart s in
         if chartCanvas s1 then
           (case labelsOf P xValues of
              None \<Rightarrow> (TypeError, s1)
            | Some ls \<Rightarrow>
                (Plotted, s1\<lparr>chartInstance := Some \<lparr>labels = ls, datasets = ds\<rparr>, loading := False\<rparr>))
         else (Plotted, s1\<lparr>loading := False\<rparr>)))"

subsection \<open>The plot request\<close>

definition noExpression :: "state \<Rightarrow> bool" where
  "noExpression s = list_all blank (expressions s)"

definition badRange :: "state \<Rightarrow> bool" where
  "badRange s \<longleftrightarrow> minX s = Null \<or> maxX s = Null \<or> js_ge (minX s) (maxX s)"

definition badSampleCount :: "state \<Rightarrow> bool" where
  "badSampleCount s \<longleftrightarrow> toNumber (numPoints s) < 2 \<or> toNumber (numPoints s) > 1000"

text \<open>
  \<^verbatim>\<open>plotGraph\<close>. The \<^verbatim>\<open>await nextTick()\<close> only lets the framework repaint; the state is
  taken to be the same after it.
\<close>

definition plotGraph :: "platform \<Rightarrow> state \<Rightarrow> exit \<times> state" where
  "plotGraph P s =
     (if noExpression s then
        (EmptyInput,
         s\<lparr>errorMessage := str ''Please enter at least one mathematical expression.''\<rparr>)
      else if badRange s then
        (BadRange,
         s\<lparr>errorMessage := str ''Min X must be less than Max X, and both must be valid numbers.''\<rparr>)
      else if badSampleCount s then
        (BadSampleCount,
         s\<lparr>errorMessage := str ''Number of points must be between 2 and 1000.''\<rparr>)
      else
        (let s1 = s\<lparr>errorMessage := [], loading := True\<rparr>;
             xValues = sampleDomain P s1
         in case exprLoop P xValues (expressions s1) 0 [] of
              Inl (Message e m) \<Rightarrow> (e, s1\<lparr>errorMessage := m, loading := False\<rparr>)
            | Inl Uncaught \<Rightarrow> (TypeError, s1)
            | Inr ds \<Rightarrow> render P s1 xValues ds))"

section \<open>A stand-in platform and sample requests\<close>

text \<open>
  A small stand-in for the platform, enough to run the model on concrete requests. Its
  expression library knows a handful of expressions, with the values \<^verbatim>\<open>mathjs\<close> gives them
  at a number, and reports a parse error for every other text; \<^verbatim>\<open>y\<close> is an undefined symbol
  whatever \<^verbatim>\<open>x\<close> is, and \<^verbatim>\<open>x\<close> returns its argument, a string included. \<open>fixed\<close> prints a real with \<open>d\<close>
  decimals, rounding half away from zero; the stand-in for \<^verbatim>\<open>toString\<close> prints the nearest
  whole number. Its arithmetic overflows as doubles do but does not round: it agrees with
  double arithmetic whenever the exact result of an operation is a double, which is so at
  every step of the requests evaluated below.
\<close>

definition digit :: "nat \<Rightarrow> char" where
  "digit n = ''0123456789'' ! (n mod 10)"

fun decimal :: "nat \<Rightarrow> string" where
  "decimal n = (if n < 10 then [digit n] else decimal (n div 10) @ [digit n])"

declare decimal.simps [simp del]

definition fixed :: "real \<Rightarrow> nat \<Rightarrow> string" where
  "fixed r d =
     (let n = nat \<lfloor>\<bar>r\<bar> * 10 ^ d + 1 / 2\<rfloor>
      in (if r < 0 then ''-'' else []) @ decimal (n div 10 ^ d) @
         (if d = 0 then [] else ''.'' @ map (\<lambda>k. digit (n div 10 ^ (d - 1 - k))) [0..<d]))"

definition stubFixed :: "jsnumber \<Rightarrow> nat \<Rightarrow> jsstring" where
  "stubFixed n d =
     (case n of
        Finite r \<Rightarrow> str (fixed r d)
      | PosInfinity \<Rightarrow> str ''Infinity''
      | NegInfinity \<Rightarrow> str ''-Infinity''
      | NaN \<Rightarrow> str ''NaN'')"

definition unrounded :: "real \<Rightarrow> jsnumber" where
  "unrounded x =
     (if \<bar>x\<bar> < 2 ^ 1024 - 2 ^ 970 then Finite x
      else if 0 < x then PosInfinity else NegInfinity)"

definition onNumber :: "(jsnumber \<Rightarrow> jsstring + mathval) \<Rightarrow> xvalue \<Rightarrow> jsstring + mathval" where
  "onNumber f x = (case x of XNum n \<Rightarrow> f n | XStr t \<Rightarrow> Inl (str ''Unexpected type of argument''))"

definition square :: "xvalue \<Rightarrow> jsstring + mathval" where
  "square =
     onNumber (\<lambda>n. Inr (Number
       (case n of Finite r \<Rightarrow> unrounded (r * r) | NaN \<Rightarrow> NaN | _ \<Rightarrow> PosInfinity)))"

definition identity :: "xvalue \<Rightarrow> jsstring + mathval" where
  "identity x = (case x of XNum n \<Rightarrow> Inr (Number n) | XStr t \<Rightarrow> Inr (Text t))"

definition reciprocal :: "xvalue \<Rightarrow> jsstring + mathval" where
  "reciprocal =
     onNumber (\<lambda>n. Inr (Number
       (case n of
          Finite r \<Rightarrow> (if r = 0 then PosInfinity else unrounded (1 / r))
        | NaN \<Rightarrow> NaN
        | _ \<Rightarrow> Finite 0)))"

definition isPositive :: "xvalue \<Rightarrow> jsstring + mathval" where
  "isPositive =
     onNumber (\<lambda>n. Inr (Boolean (case n of Finite r \<Rightarrow> 0 < r | PosInfinity \<Rightarrow> True | _ \<Rightarrow> False)))"

definition stubCompile :: "jsstring \<Rightarrow> jsstring + (xvalue \<Rightarrow> jsstring + mathval)" where
  "stubCompile t =
     (if t = str ''x^2'' then Inr square
      else if t = str ''x'' then Inr identity
      else if t = str ''1/x'' then Inr reciprocal
      else if t = str ''x > 0'' then Inr isPositive
      else if t = str ''3'' then Inr (\<lambda>x. Inr (Number (Finite 3)))
      else if t = str ''X = 3'' then Inr (\<lambda>x. Inr (Number (Finite 3)))
      else if t = str ''y'' then Inr (\<lambda>x. Inl (str ''Undefined symbol y''))
      else Inl (str ''Value expected (char 3)''))"

definition stub :: platform where
  "stub = \<lparr>math_compile = stubCompile, toFixed = stubFixed, toString = (\<lambda>n. stubFixed n 0),
           binary64 = unrounded\<rparr>"

text \<open>The form as it is after mounting, with the given rows and parameters.\<close>

definition request :: "jsstring list \<Rightarrow> fieldval \<Rightarrow> fieldval \<Rightarrow> fieldval \<Rightarrow> state" where
  "request texts lo hi n =
     \<lparr>expressions = map (\<lambda>(i, t). \<lparr>expr_id = Suc i, expr_value = t\<rparr>) (enumerate 0 texts),
      minX = lo, maxX = hi, numPoints = n, errorMessage = [], loading = False,
      chartCanvas = True, chartInstance = None, destroyed = []\<rparr>"

text \<open>A chart left on the canvas by an earlier request.\<close>

definition oldChart :: chart where
  "oldChart = \<lparr>labels = [str ''0.00'', str ''1.00''], datasets = []\<rparr>"

section \<open>The sampled domain\<close>

lemma xLoop_map:
  "xLoop P lo step n i acc =
     acc @ map (\<lambda>k. js_add P lo (js_times P (Finite (real k)) step)) [i..<nat \<lceil>n\<rceil>]"
proof (induction P lo step n i acc rule: xLoop.induct)
  case (1 P lo step n i xValues)
  show ?case
  proof (cases "real i < n")
    case True
    then have "i < nat \<lceil>n\<rceil>" by linarith
    then have "[i..<nat \<lceil>n\<rceil>] = i # [Suc i..<nat \<lceil>n\<rceil>]"
      by (rule upt_conv_Cons)
    with True "1.IH" show ?thesis
      by (subst xLoop.simps) simp
  next
    case False
    then have "nat \<lceil>n\<rceil> \<le> i" by linarith
    with False show ?thesis
      by (subst xLoop.simps) simp
  qed
qed

lemma sampleDomain_map:
  "sampleDomain P s =
     map (\<lambda>k. js_add P (minX s) (js_times P (Finite (real k)) (stepOf P s)))
       [0..<nat \<lceil>toNumber (numPoints s)\<rceil>]"
  by (simp add: sampleDomain_def xLoop_map)

text \<open>Unfolding the model on a concrete request.\<close>

lemmas run_simps = plotGraph_def noExpression_def blank_def trim_def is_space_def badRange_def
  badSampleCount_def stub_def stubCompile_def request_def render_def Let_def
  destroyChart_def upt_conv_Cons parseMessage_def evalMessage_def getLineColor_def lineColors_def
  match_xX_def fixed_def decimal.simps digit_def square_def identity_def reciprocal_def
  isPositive_def onNumber_def enumerate_eq_zip str_def codeUnit_def stubFixed_def unrounded_def
  js_minus_def stepOf_def signedInfinity_def sampleDomain_map





text \<open>
  The difference of the two bounds, \<open>2 * 10\<^sup>3\<^sup>0\<^sup>8\<close>, is beyond the doubles: the step is
  \<^verbatim>\<open>Infinity\<close>, the first point \<^verbatim>\<open>-1e308 + 0 * Infinity\<close> is \<^verbatim>\<open>NaN\<close> and the others are
  \<^verbatim>\<open>Infinity\<close>.
\<close>

section \<open>Samples that are not finite numbers\<close>

lemma sampleLoop_append:
  "sampleLoop P v f (pre @ post) acc =
     (case sampleLoop P v f pre acc of Inl a \<Rightarrow> Inl a | Inr ys \<Rightarrow> sampleLoop P v f post ys)"
  by (induction pre arbitrary: acc) (auto split: sum.splits option.splits)

lemma sampleLoop_all_returned:
  assumes "\<forall>x\<in>set xs. \<exists>y. f x = Inr y"
  shows "sampleLoop P v f xs acc =
           Inr (acc @ map (\<lambda>x. case f x of Inr y \<Rightarrow> ySample y | Inl m \<Rightarrow> None) xs)"
  using assms by (induction xs arbitrary: acc) auto

text \<open>
  C3. When evaluation at a point returns a number that is not finite (an infinity or NaN),
  and no earlier point threw, the inner loop records \<open>None\<close> for that point and goes on
  with the remaining points; when those do not throw either, the loop returns one sample
  per point, with \<open>None\<close> at the position of the non-finite value.
\<close>

theorem nonfinite_sample_is_gap:
  assumes "\<forall>p\<in>set pre. \<exists>y. f p = Inr y"
    and "f x = Inr (Number n)" and "\<not> isFinite n"
  shows "sampleLoop P v f (pre @ x # post) acc =
           sampleLoop P v f post
             (acc @ map (\<lambda>p. case f p of Inr y \<Rightarrow> ySample y | Inl m \<Rightarrow> None) pre @ [None])
         \<and> ((\<forall>q\<in>set post. \<exists>y. f q = Inr y) \<longrightarrow>
              (\<exists>ys. sampleLoop P v f (pre @ x # post) acc = Inr ys \<and>
                 length ys = length acc + length pre + 1 + length post \<and>
                 ys ! (length acc + length pre) = None))"
proof -
  have step: "sampleLoop P v f (pre @ x # post) acc =
           sampleLoop P v f post
             (acc @ map (\<lambda>p. case f p of Inr y \<Rightarrow> ySample y | Inl m \<Rightarrow> None) pre @ [None])"
    using assms by (simp add: sampleLoop_append sampleLoop_all_returned)
  moreover have "\<exists>ys. sampleLoop P v f (pre @ x # post) acc = Inr ys \<and>
                 length ys = length acc + length pre + 1 + length post \<and>
                 ys ! (length acc + length pre) = None"
    if "\<forall>q\<in>set post. \<exists>y. f q = Inr y"
    using that by (simp add: step sampleLoop_all_returned nth_append)
  ultimately show ?thesis by blast
qed

theorem nonfinite_sample_is_gap_witness:
  "reciprocal (XNum (Finite 0)) = Inr (Number PosInfinity) \<and> \<not> isFinite PosInfinity \<and>
   sampleLoop stub (str ''1/x'') reciprocal
     ([XNum (Finite (- 1))] @ XNum (Finite 0) # [XNum (Finite 1)]) [] =
     Inr [Some (- 1), None, Some 1]"
  using nonfinite_sample_is_gap
    [where pre = "[XNum (Finite (- 1))]" and f = reciprocal and x = "XNum (Finite 0)"
       and n = PosInfinity and post = "[XNum (Finite 1)]" and P = stub and v = "str ''1/x''"
       and acc = "[]"]
  by (simp add: reciprocal_def onNumber_def unrounded_def)

text \<open>
  C10. When evaluation at a point returns a value that is not a number at all (a complex
  value, a boolean, a string, \<^verbatim>\<open>undefined\<close>), and no earlier point threw, the inner loop
  records \<open>None\<close> for that point, exactly as for a non-finite number, and goes on with the
  remaining points.
\<close>

theorem nonnumber_sample_is_gap:
  assumes "\<forall>p\<in>set pre. \<exists>y. f p = Inr y"
    and "f x = Inr y" and "\<forall>n. y \<noteq> Number n"
  shows "sampleLoop P v f (pre @ x # post) acc =
           sampleLoop P v f post
             (acc @ map (\<lambda>p. case f p of Inr y \<Rightarrow> ySample y | Inl m \<Rightarrow> None) pre @ [None])
         \<and> ((\<forall>q\<in>set post. \<exists>y. f q = Inr y) \<longrightarrow>
              (\<exists>ys. sampleLoop P v f (pre @ x # post) acc = Inr ys \<and>
                 length ys = length acc + length pre + 1 + length post \<and>
                 ys ! (length acc + length pre) = None))"
proof -
  have y: "ySample y = None" using assms(3) by (cases y) auto
  have step: "sampleLoop P v f (pre @ x # post) acc =
           sampleLoop P v f post
             (acc @ map (\<lambda>p. case f p of Inr y \<Rightarrow> ySample y | Inl m \<Rightarrow> None) pre @ [None])"
    using assms(1,2) y by (simp add: sampleLoop_append sampleLoop_all_returned)
  moreover have "\<exists>ys. sampleLoop P v f (pre @ x # post) acc = Inr ys \<and>
                 length ys = length acc + length pre + 1 + length post \<and>
                 ys ! (length acc + length pre) = None"
    if "\<forall>q\<in>set post. \<exists>y. f q = Inr y"
    using that by (simp add: step sampleLoop_all_returned nth_append)
  ultimately show ?thesis by blast
qed

theorem nonnumber_sample_is_gap_witness:
  "isPositive (XNum (Finite 1)) = Inr (Boolean True) \<and>
   sampleLoop stub (str ''x > 0'') isPositive
     ([XNum (Finite 0)] @ XNum (Finite 1) # [XNum (Finite 2)]) [Some 7] =
     Inr [Some 7, None, None, None]"
  using nonnumber_sample_is_gap
    [where pre = "[XNum (Finite 0)]" and f = isPositive and x = "XNum (Finite 1)"
       and y = "Boolean True" and post = "[XNum (Finite 2)]" and P = stub
       and v = "str ''x > 0''" and acc = "[Some 7]"]
  by (simp add: isPositive_def onNumber_def)

section \<open>The loops over points and expressions\<close>

lemma sampleLoop_Inr_all_returned:
  "sampleLoop P v f xs acc = Inr ys \<Longrightarrow> \<forall>x\<in>set xs. \<exists>y. f x = Inr y"
  by (induction xs arbitrary: acc) (auto split: sum.splits option.splits)

lemma sampleLoop_numeric:
  assumes "\<forall>x\<in>set xs. \<exists>r. x = XNum r"
  shows "(\<exists>ys. sampleLoop P v f xs acc = Inr ys) \<or>
         (\<exists>r m. XNum r \<in> set xs \<and> f (XNum r) = Inl m \<and>
            sampleLoop P v f xs acc = Inl (Message EvalFailed (evalMessage v (toFixed P r 2) m)))"
  using assms
proof (induction xs arbitrary: acc)
  case Nil
  then show ?case by simp
next
  case (Cons x xs)
  then obtain r where x: "x = XNum r" by auto
  show ?case
  proof (cases "f x")
    case (Inl m)
    with x show ?thesis by auto
  next
    case (Inr y)
    from Cons.IH [of "acc @ [ySample y]"] Cons.prems Inr show ?thesis
      by auto
  qed
qed

lemma exprLoop_labels:
  "exprLoop P xs es i ds = Inr ds' \<Longrightarrow>
   map label ds' = map label ds @ map (\<lambda>e. str ''y = '' @ expr_value e) (filter (\<lambda>e. \<not> blank e) es)"
  by (induction es arbitrary: i ds) (auto split: if_splits sum.splits)

lemma exprLoop_colors:
  "exprLoop P xs es i ds = Inr ds' \<Longrightarrow>
   map borderColor ds' =
     map borderColor ds @
     map (\<lambda>(k, e). getLineColor k) (filter (\<lambda>(k, e). \<not> blank e) (enumerate i es))"
  by (induction es arbitrary: i ds) (auto split: if_splits sum.splits)

lemma exprLoop_aborts:
  assumes "\<forall>x\<in>set xs. \<exists>r. x = XNum r"
    and "\<exists>e\<in>set es. \<not> blank e \<and>
           (case math_compile P (expr_value e) of
              Inl m \<Rightarrow> True
            | Inr f \<Rightarrow> \<exists>x\<in>set xs. \<exists>m. f x = Inl m)"
  shows "\<exists>e\<in>set es. \<not> blank e \<and>
           ((\<exists>m. math_compile P (expr_value e) = Inl m \<and>
               exprLoop P xs es i ds = Inl (Message ParseFailed (parseMessage (expr_value e) m))) \<or>
            (\<exists>f r m. math_compile P (expr_value e) = Inr f \<and> XNum r \<in> set xs \<and>
               f (XNum r) = Inl m \<and>
               exprLoop P xs es i ds =
                 Inl (Message EvalFailed (evalMessage (expr_value e) (toFixed P r 2) m))))"
  using assms(2)
proof (induction es arbitrary: i ds)
  case Nil
  then show ?case by simp
next
  case (Cons e es)
  let ?off = "\<lambda>e. \<not> blank e \<and>
           (case math_compile P (expr_value e) of
              Inl m \<Rightarrow> True
            | Inr f \<Rightarrow> \<exists>x\<in>set xs. \<exists>m. f x = Inl m)"
  show ?case
  proof (cases "blank e")
    case True
    with Cons.prems have "\<exists>e\<in>set es. ?off e" by auto
    from Cons.IH [OF this, of "Suc i" ds] True show ?thesis by auto
  next
    case False
    show ?thesis
    proof (cases "math_compile P (expr_value e)")
      case (Inl m)
      with False show ?thesis by auto
    next
      case (Inr f)
      from sampleLoop_numeric [OF assms(1), of P "expr_value e" f "[]"]
      consider ys where "sampleLoop P (expr_value e) f xs [] = Inr ys"
        | r m where "XNum r \<in> set xs" "f (XNum r) = Inl m"
            "sampleLoop P (expr_value e) f xs [] =
               Inl (Message EvalFailed (evalMessage (expr_value e) (toFixed P r 2) m))"
        by blast
      then show ?thesis
      proof cases
        case 1
        then have "\<forall>x\<in>set xs. \<exists>y. f x = Inr y"
          by (rule sampleLoop_Inr_all_returned)
        with Inr have "\<not> ?off e" by auto
        with Cons.prems have "\<exists>e\<in>set es. ?off e" by auto
        from Cons.IH [OF this] False Inr 1 show ?thesis by auto
      next
        case 2
        with False Inr show ?thesis by auto
      qed
    qed
  qed
qed

lemma sampleLoop_abort_exit:
  "sampleLoop P v f xs acc = Inl (Message e m) \<Longrightarrow> e = EvalFailed"
  by (induction xs arbitrary: acc) (auto split: sum.splits option.splits)

lemma exprLoop_abort_exit:
  "exprLoop P xs es i ds = Inl (Message e m) \<Longrightarrow> e = ParseFailed \<or> e = EvalFailed"
  by (induction es arbitrary: i ds)
    (auto split: if_splits sum.splits dest: sampleLoop_abort_exit)

lemma render_exit:
  "fst (render P s xs ds) = NoValidExpressions \<or> fst (render P s xs ds) = Plotted \<or>
   fst (render P s xs ds) = TypeError"
  by (simp add: render_def Let_def split: option.splits)

lemma destroyChart_fields [simp]:
  "errorMessage (destroyChart s) = errorMessage s"
  "loading (destroyChart s) = loading s"
  "chartCanvas (destroyChart s) = chartCanvas s"
  "chartInstance (destroyChart s) = chartInstance s"
  "expressions (destroyChart s) = expressions s"
  "destroyed (destroyChart s) = destroyed s @ (case chartInstance s of None \<Rightarrow> [] | Some c \<Rightarrow> [c])"
  by (simp_all add: destroyChart_def split: option.splits)

lemma sampleDomain_frame [simp]:
  "sampleDomain P (s\<lparr>errorMessage := m, loading := l\<rparr>) = sampleDomain P s"
  by (simp add: sampleDomain_def stepOf_def)

lemma sampleDomain_numeric:
  "minX s = Num a \<Longrightarrow> \<forall>x\<in>set (sampleDomain P s). \<exists>r. x = XNum r"
  by (auto simp: sampleDomain_map)

lemma exprLoop_nonempty:
  assumes "exprLoop P xs es i ds = Inr ds'" and "\<not> list_all blank es"
  shows "ds' \<noteq> []"
proof -
  from assms(2) have "filter (\<lambda>e. \<not> blank e) es \<noteq> []"
    by (simp add: filter_empty_conv list_all_iff)
  with exprLoop_labels [OF assms(1)] show ?thesis by auto
qed

lemma exprLoop_label_color:
  "exprLoop P xs es i ds = Inr ds' \<Longrightarrow>
   map (\<lambda>d. (label d, borderColor d)) ds' =
     map (\<lambda>d. (label d, borderColor d)) ds @
     map (\<lambda>(k, e). (str ''y = '' @ expr_value e, getLineColor k))
       (filter (\<lambda>(k, e). \<not> blank e) (enumerate i es))"
  by (induction es arbitrary: i ds) (auto split: if_splits sum.splits)

lemma exprLoop_label_radius:
  "exprLoop P xs es i ds = Inr ds' \<Longrightarrow>
   map (\<lambda>d. (label d, pointRadius d)) ds' =
     map (\<lambda>d. (label d, pointRadius d)) ds @
     map (\<lambda>e. (str ''y = '' @ expr_value e, if match_xX (expr_value e) then 0 else 3))
       (filter (\<lambda>e. \<not> blank e) es)"
  by (induction es arbitrary: i ds) (auto split: if_splits sum.splits)

lemma row_colors_by_text:
  "map expr_value es = map expr_value es' \<Longrightarrow>
   map (\<lambda>(k, e). g k) (filter (\<lambda>(k, e). \<not> blank e) (enumerate i es)) =
   map (\<lambda>(k, e). g k) (filter (\<lambda>(k, e). \<not> blank e) (enumerate i es'))"
proof (induction es arbitrary: es' i)
  case Nil
  then show ?case by simp
next
  case (Cons e es)
  then obtain e' rest where es': "es' = e' # rest" by (cases es') auto
  with Cons.prems have "expr_value e = expr_value e'" "map expr_value es = map expr_value rest"
    by simp_all
  with Cons.IH [of rest "Suc i"] es' show ?case
    by (simp add: blank_def)
qed

text \<open>What a finished request with a mounted canvas leaves behind.\<close>

lemma plotted_chart:
  assumes "plotGraph P s = (Plotted, s')" and "chartCanvas s"
  obtains ds ls where "exprLoop P (sampleDomain P s) (expressions s) 0 [] = Inr ds"
    and "chartInstance s' = Some \<lparr>labels = ls, datasets = ds\<rparr>"
proof -
  let ?s1 = "s\<lparr>errorMessage := [], loading := True\<rparr>"
  from assms(1) have valid: "\<not> noExpression s" "\<not> badRange s" "\<not> badSampleCount s"
    by (auto simp: plotGraph_def split: if_splits)
  show thesis
  proof (cases "exprLoop P (sampleDomain P s) (expressions s) 0 []")
    case (Inl a)
    with valid assms(1) exprLoop_abort_exit [of P "sampleDomain P s" "expressions s" 0 "[]"]
    show ?thesis
      by (cases a) (auto simp: plotGraph_def Let_def)
  next
    case (Inr ds)
    with valid have ne: "ds \<noteq> []"
      by (auto simp: noExpression_def dest: exprLoop_nonempty)
    from Inr valid assms(1) have "render P ?s1 (sampleDomain P s) ds = (Plotted, s')"
      by (simp add: plotGraph_def Let_def)
    with ne assms(2) obtain ls where "chartInstance s' = Some \<lparr>labels = ls, datasets = ds\<rparr>"
      by (auto simp: render_def Let_def split: option.splits)
    with Inr that show ?thesis by blast
  qed
qed

lemma match_xX_iff:
  "match_xX t \<longleftrightarrow> codeUnit CHR ''x'' \<in> set t \<or> codeUnit CHR ''X'' \<in> set t"
  by (auto simp: match_xX_def list_ex_iff)

lemma exprLoop_series:
  assumes "\<forall>e\<in>set es. \<not> blank e \<longrightarrow>
             (\<exists>f. math_compile P (expr_value e) = Inr f \<and> (\<forall>x\<in>set xs. \<exists>y. f x = Inr y))"
  shows "exprLoop P xs es i ds =
           Inr (ds @
             map (\<lambda>(k, e).
                    \<lparr>label = str ''y = '' @ expr_value e,
                     data =
                       (case math_compile P (expr_value e) of
                          Inr f \<Rightarrow> map (\<lambda>x. case f x of Inr y \<Rightarrow> ySample y | Inl m \<Rightarrow> None) xs
                        | Inl m \<Rightarrow> []),
                     borderColor = getLineColor k,
                     tension = 1 / 10,
                     fill = False,
                     pointRadius = (if match_xX (expr_value e) then 0 else 3),
                     pointHoverRadius = 5\<rparr>)
               (filter (\<lambda>(k, e). \<not> blank e) (enumerate i es)))"
  using assms
proof (induction es arbitrary: i ds)
  case Nil
  then show ?case by simp
next
  case (Cons e es)
  from Cons.prems have rest: "\<forall>e\<in>set es. \<not> blank e \<longrightarrow>
      (\<exists>f. math_compile P (expr_value e) = Inr f \<and> (\<forall>x\<in>set xs. \<exists>y. f x = Inr y))"
    by simp
  show ?case
  proof (cases "blank e")
    case True
    with Cons.IH [OF rest] show ?thesis by simp
  next
    case False
    with Cons.prems obtain f where f: "math_compile P (expr_value e) = Inr f"
      "\<forall>x\<in>set xs. \<exists>y. f x = Inr y" by auto
    from False f Cons.IH [OF rest] show ?thesis
      by (simp add: sampleLoop_all_returned)
  qed
qed

section \<open>Failed requests and the chart on the canvas\<close>

text \<open>
  C4. When a plot request ends at one of the validation returns or with a parse or an
  evaluation error, the chart referenced by \<open>chartInstance\<close> is the one from before the
  request and \<^verbatim>\<open>destroy()\<close> has not been called on anything. The branch for an empty list
  of datasets (lines 173 to 181) is the one that calls \<^verbatim>\<open>destroy()\<close> on the existing chart
  and sets \<open>chartInstance\<close> to \<^verbatim>\<open>null\<close>.
\<close>

theorem failed_request_keeps_chart:
  "(fst (plotGraph P s) \<in> {EmptyInput, BadRange, BadSampleCount, ParseFailed, EvalFailed} \<longrightarrow>
      chartInstance (snd (plotGraph P s)) = chartInstance s \<and>
      destroyed (snd (plotGraph P s)) = destroyed s) \<and>
   fst (render P s xs []) = NoValidExpressions \<and>
   errorMessage (snd (render P s xs [])) = str ''No valid expressions to plot.'' \<and>
   chartInstance (snd (render P s xs [])) = None \<and>
   destroyed (snd (render P s xs [])) =
     destroyed s @ (case chartInstance s of None \<Rightarrow> [] | Some c \<Rightarrow> [c])"
proof -
  have "chartInstance (snd (plotGraph P s)) = chartInstance s \<and>
        destroyed (snd (plotGraph P s)) = destroyed s"
    if "fst (plotGraph P s) \<in> {EmptyInput, BadRange, BadSampleCount, ParseFailed, EvalFailed}"
  proof -
    let ?s1 = "s\<lparr>errorMessage := [], loading := True\<rparr>"
    let ?xs = "sampleDomain P ?s1"
    consider "noExpression s" | "\<not> noExpression s" "badRange s"
      | "\<not> noExpression s" "\<not> badRange s" "badSampleCount s"
      | "\<not> noExpression s" "\<not> badRange s" "\<not> badSampleCount s" by blast
    then show ?thesis
    proof cases
      case 4
      show ?thesis
      proof (cases "exprLoop P ?xs (expressions ?s1) 0 []")
        case (Inl a)
        with 4 show ?thesis
          by (cases a) (simp_all add: plotGraph_def Let_def)
      next
        case (Inr ds)
        with 4 have "plotGraph P s = render P ?s1 ?xs ds"
          by (simp add: plotGraph_def Let_def)
        with that render_exit [of P ?s1 ?xs ds] show ?thesis by auto
      qed
    qed (simp_all add: plotGraph_def)
  qed
  then show ?thesis
    by (simp add: render_def)
qed

theorem failed_request_keeps_chart_witness:
  "fst (plotGraph stub ((request [str ''2 +''] (Num 0) (Num 1) (Num 2))\<lparr>chartInstance := Some oldChart\<rparr>)) =
     ParseFailed \<and>
   chartInstance
     (snd (plotGraph stub ((request [str ''2 +''] (Num 0) (Num 1) (Num 2))\<lparr>chartInstance := Some oldChart\<rparr>))) =
     Some oldChart \<and>
   destroyed
     (snd (plotGraph stub ((request [str ''2 +''] (Num 0) (Num 1) (Num 2))\<lparr>chartInstance := Some oldChart\<rparr>))) =
     [] \<and>
   chartInstance
     (snd (render stub ((request [str ''2 +''] (Num 0) (Num 1) (Num 2))\<lparr>chartInstance := Some oldChart\<rparr>) [] [])) =
     None \<and>
   destroyed
     (snd (render stub ((request [str ''2 +''] (Num 0) (Num 1) (Num 2))\<lparr>chartInstance := Some oldChart\<rparr>) [] [])) =
     [oldChart]"
proof -
  let ?s = "(request [str ''2 +''] (Num 0) (Num 1) (Num 2))\<lparr>chartInstance := Some oldChart\<rparr>"
  have run: "fst (plotGraph stub ?s) = ParseFailed"
    by (simp add: run_simps)
  have old: "chartInstance ?s = Some oldChart" "destroyed ?s = []"
    by (simp_all add: request_def)
  from failed_request_keeps_chart [of stub ?s "[]"] run old show ?thesis
    by simp
qed

section \<open>Parse and evaluation errors\<close>

text \<open>
  With a numeric lower bound every sampled point is a number, and a failing expression
  ends the request with a message. Take a request that passes validation with a numeric
  lower bound. If some non-blank expression fails to compile, or its compiled form throws at
  some sampled point, then the request ends at the parse-error or the evaluation-error
  return: the message is the template of the source filled with the text of an expression
  that failed in that way and the text of the thrown error (and, for an evaluation error,
  the point formatted with two decimals), \<open>loading\<close> is reset, and nothing else of the
  state changes.
\<close>

lemma failing_expression_message:
  assumes "\<not> badRange s" and "\<not> badSampleCount s" and "minX s = Num a"
    and "\<exists>e\<in>set (expressions s). \<not> blank e \<and>
           (case math_compile P (expr_value e) of
              Inl m \<Rightarrow> True
            | Inr f \<Rightarrow> \<exists>x\<in>set (sampleDomain P s). \<exists>m. f x = Inl m)"
  shows "\<exists>e\<in>set (expressions s). \<not> blank e \<and>
           ((\<exists>m. math_compile P (expr_value e) = Inl m \<and>
               plotGraph P s =
                 (ParseFailed,
                  s\<lparr>errorMessage :=
                      str ''Error parsing '' @ [0x22] @ expr_value e @ [0x22] @ str '': '' @ m,
                    loading := False\<rparr>)) \<or>
            (\<exists>f r m. math_compile P (expr_value e) = Inr f \<and>
               XNum r \<in> set (sampleDomain P s) \<and> f (XNum r) = Inl m \<and>
               plotGraph P s =
                 (EvalFailed,
                  s\<lparr>errorMessage :=
                      str ''Error evaluating '' @ [0x22] @ expr_value e @ [0x22] @
                      str '' at x='' @ toFixed P r 2 @ str '': '' @ m,
                    loading := False\<rparr>)))"
proof -
  let ?xs = "sampleDomain P s"
  from assms(4) have ne: "\<not> noExpression s"
    by (auto simp: noExpression_def list_all_iff)
  have run: "plotGraph P s = (e, s\<lparr>errorMessage := m, loading := False\<rparr>)"
    if "exprLoop P ?xs (expressions s) 0 [] = Inl (Message e m)" for e m
    using that ne assms(1,2) by (simp add: plotGraph_def Let_def)
  from exprLoop_aborts [OF sampleDomain_numeric [OF assms(3)] assms(4), of 0 "[]"]
  obtain e where e: "e \<in> set (expressions s)" "\<not> blank e"
    and cases: "(\<exists>m. math_compile P (expr_value e) = Inl m \<and>
               exprLoop P ?xs (expressions s) 0 [] =
                 Inl (Message ParseFailed (parseMessage (expr_value e) m))) \<or>
            (\<exists>f r m. math_compile P (expr_value e) = Inr f \<and> XNum r \<in> set ?xs \<and>
               f (XNum r) = Inl m \<and>
               exprLoop P ?xs (expressions s) 0 [] =
                 Inl (Message EvalFailed (evalMessage (expr_value e) (toFixed P r 2) m)))"
    by blast
  from cases show ?thesis
  proof
    assume "\<exists>m. math_compile P (expr_value e) = Inl m \<and>
               exprLoop P ?xs (expressions s) 0 [] =
                 Inl (Message ParseFailed (parseMessage (expr_value e) m))"
    then obtain m where m: "math_compile P (expr_value e) = Inl m"
      "exprLoop P ?xs (expressions s) 0 [] =
                 Inl (Message ParseFailed (parseMessage (expr_value e) m))" by blast
    from run [OF m(2)] m(1) e show ?thesis
      by (auto simp: parseMessage_def)
  next
    assume "\<exists>f r m. math_compile P (expr_value e) = Inr f \<and> XNum r \<in> set ?xs \<and>
               f (XNum r) = Inl m \<and>
               exprLoop P ?xs (expressions s) 0 [] =
                 Inl (Message EvalFailed (evalMessage (expr_value e) (toFixed P r 2) m))"
    then obtain f r m where m: "math_compile P (expr_value e) = Inr f" "XNum r \<in> set ?xs"
      "f (XNum r) = Inl m"
      "exprLoop P ?xs (expressions s) 0 [] =
                 Inl (Message EvalFailed (evalMessage (expr_value e) (toFixed P r 2) m))"
      by blast
    from run [OF m(4)] m(1,2,3) e show ?thesis
      by (auto simp: evalMessage_def)
  qed
qed

text \<open>
  C2. The claim fails on a request whose lower bound has been cleared. The field then
  holds the empty string, which the range check lets through (it compares as 0), and the
  sampled points are the strings \<^verbatim>\<open>"0"\<close>, \<^verbatim>\<open>"1"\<close> and \<^verbatim>\<open>"2"\<close>. The expression \<^verbatim>\<open>y\<close> throws at the
  first of them; the handler calls \<^verbatim>\<open>toFixed\<close> on the string, which throws in turn, so the
  request ends in an uncaught \<^verbatim>\<open>TypeError\<close> with no message and with \<open>loading\<close> still set.
\<close>

theorem evaluation_error_after_cleared_minX:
  "minX (request [str ''y''] EmptyString (Num 2) (Num 3)) = EmptyString \<and>
   \<not> noExpression (request [str ''y''] EmptyString (Num 2) (Num 3)) \<and>
   \<not> badRange (request [str ''y''] EmptyString (Num 2) (Num 3)) \<and>
   \<not> badSampleCount (request [str ''y''] EmptyString (Num 2) (Num 3)) \<and>
   sampleDomain stub (request [str ''y''] EmptyString (Num 2) (Num 3)) =
     [XStr (str ''0''), XStr (str ''1''), XStr (str ''2'')] \<and>
   plotGraph stub (request [str ''y''] EmptyString (Num 2) (Num 3)) =
     (TypeError, (request [str ''y''] EmptyString (Num 2) (Num 3))\<lparr>loading := True\<rparr>) \<and>
   errorMessage (snd (plotGraph stub (request [str ''y''] EmptyString (Num 2) (Num 3)))) = []"
  by (simp add: run_simps)

text \<open>The same rows with the lower bound 0 end at the evaluation-error return.\<close>

lemma evaluation_error_with_numeric_minX:
  "plotGraph stub (request [str ''x'', str ''y''] (Num 0) (Num 2) (Num 3)) =
     (EvalFailed,
      (request [str ''x'', str ''y''] (Num 0) (Num 2) (Num 3))
        \<lparr>errorMessage :=
           str ''Error evaluating '' @ [0x22] @ str ''y'' @ [0x22] @ str '' at x=0.00: Undefined symbol y''\<rparr>)"
  by (simp add: run_simps)

section \<open>Colours and point markers of the series\<close>

text \<open>
  C7 (amended). When a request is plotted on a mounted canvas, the series are those of
  the non-blank rows in order, and the colour of a row's series is the palette entry
  \<open>getLineColor k\<close> for the index \<open>k\<close> of the row in the whole list of expression entries,
  blank rows counted; the row's id plays no part. Two plotted requests whose lists hold the
  same texts row by row get the same colours.
\<close>

theorem series_color_by_row:
  assumes "plotGraph P s = (Plotted, s')" and "chartCanvas s"
  shows "\<exists>c. chartInstance s' = Some c \<and>
           map (\<lambda>d. (label d, borderColor d)) (datasets c) =
             map (\<lambda>(k, e). (str ''y = '' @ expr_value e, getLineColor k))
               (filter (\<lambda>(k, e). \<not> blank e) (enumerate 0 (expressions s))) \<and>
           (\<forall>t t'. plotGraph P t = (Plotted, t') \<and> chartCanvas t \<and>
                map expr_value (expressions t) = map expr_value (expressions s) \<longrightarrow>
                (\<exists>c'. chartInstance t' = Some c' \<and>
                   map borderColor (datasets c') = map borderColor (datasets c)))"
proof -
  let ?rows = "\<lambda>s. filter (\<lambda>(k, e). \<not> blank e) (enumerate 0 (expressions s))"
  from assms obtain ds ls where ds: "exprLoop P (sampleDomain P s) (expressions s) 0 [] = Inr ds"
    "chartInstance s' = Some \<lparr>labels = ls, datasets = ds\<rparr>"
    by (rule plotted_chart)
  have lc: "map (\<lambda>d. (label d, borderColor d)) ds =
      map (\<lambda>(k, e). (str ''y = '' @ expr_value e, getLineColor k)) (?rows s)"
    using exprLoop_label_color [OF ds(1)] by simp
  have bc: "map borderColor ds = map (\<lambda>(k, e). getLineColor k) (?rows s)"
    using exprLoop_colors [OF ds(1)] by simp
  have "\<exists>c'. chartInstance t' = Some c' \<and> map borderColor (datasets c') = map borderColor ds"
    if "plotGraph P t = (Plotted, t') \<and> chartCanvas t \<and>
      map expr_value (expressions t) = map expr_value (expressions s)" for t t'
  proof -
    from that have t: "plotGraph P t = (Plotted, t')" "chartCanvas t"
      "map expr_value (expressions t) = map expr_value (expressions s)" by simp_all
    from t(1,2) obtain ds' ls'
      where ds': "exprLoop P (sampleDomain P t) (expressions t) 0 [] = Inr ds'"
        "chartInstance t' = Some \<lparr>labels = ls', datasets = ds'\<rparr>"
      by (rule plotted_chart)
    have "map borderColor ds' = map (\<lambda>(k, e). getLineColor k) (?rows t)"
      using exprLoop_colors [OF ds'(1)] by simp
    with bc row_colors_by_text [OF t(3), of getLineColor 0] ds'(2) show ?thesis by simp
  qed
  with ds(2) lc show ?thesis by simp
qed

theorem series_color_by_row_witness:
  "fst (plotGraph stub (request [[], str ''x''] (Num 0) (Num 1) (Num 2))) = Plotted \<and>
   chartCanvas (request [[], str ''x''] (Num 0) (Num 1) (Num 2)) \<and>
   map (\<lambda>d. (label d, borderColor d))
     (datasets (the (chartInstance
        (snd (plotGraph stub (request [[], str ''x''] (Num 0) (Num 1) (Num 2))))))) =
     [(str ''y = x'', str ''rgb(255, 99, 132)'')] \<and>
   map borderColor
     (datasets (the (chartInstance
        (snd (plotGraph stub
           ((request [[], str ''x''] (Num 3) (Num 4) (Num 5))
              \<lparr>expressions := [\<lparr>expr_id = 9, expr_value = []\<rparr>,
                               \<lparr>expr_id = 4, expr_value = str ''x''\<rparr>]\<rparr>)))))) =
     [str ''rgb(255, 99, 132)'']"
proof -
  let ?s = "request [[], str ''x''] (Num 0) (Num 1) (Num 2)"
  let ?t = "(request [[], str ''x''] (Num 3) (Num 4) (Num 5))
              \<lparr>expressions := [\<lparr>expr_id = 9, expr_value = []\<rparr>,
                               \<lparr>expr_id = 4, expr_value = str ''x''\<rparr>]\<rparr>"
  have run: "plotGraph stub ?s = (fst (plotGraph stub ?s), snd (plotGraph stub ?s))"
    "fst (plotGraph stub ?s) = Plotted"
    "plotGraph stub ?t = (fst (plotGraph stub ?t), snd (plotGraph stub ?t))"
    "fst (plotGraph stub ?t) = Plotted"
    by (simp_all add: run_simps)
  have canvas: "chartCanvas ?s" "chartCanvas ?t"
    and texts: "map expr_value (expressions ?t) = map expr_value (expressions ?s)"
    and rows: "map (\<lambda>(k, e). (str ''y = '' @ expr_value e, getLineColor k))
       (filter (\<lambda>(k, e). \<not> blank e) (enumerate 0 (expressions ?s))) =
       [(str ''y = x'', str ''rgb(255, 99, 132)'')]"
    by (simp_all add: run_simps)
  from series_color_by_row [OF run(1) [unfolded run(2)] canvas(1)]
  obtain c where c: "chartInstance (snd (plotGraph stub ?s)) = Some c"
    "map (\<lambda>d. (label d, borderColor d)) (datasets c) =
       map (\<lambda>(k, e). (str ''y = '' @ expr_value e, getLineColor k))
         (filter (\<lambda>(k, e). \<not> blank e) (enumerate 0 (expressions ?s)))"
    "\<forall>t t'. plotGraph stub t = (Plotted, t') \<and> chartCanvas t \<and>
        map expr_value (expressions t) = map expr_value (expressions ?s) \<longrightarrow>
        (\<exists>c'. chartInstance t' = Some c' \<and>
           map borderColor (datasets c') = map borderColor (datasets c))"
    by blast
  note c2 = c(2) [unfolded rows]
  from c(3) run(3) [unfolded run(4)] canvas(2) texts
  obtain c' where c': "chartInstance (snd (plotGraph stub ?t)) = Some c'"
    "map borderColor (datasets c') = map borderColor (datasets c)" by blast
  from c2 have "map (snd \<circ> (\<lambda>d. (label d, borderColor d))) (datasets c) =
      map snd [(str ''y = x'', str ''rgb(255, 99, 132)'')]"
    unfolding map_map [symmetric] by simp
  then have "map borderColor (datasets c) = [str ''rgb(255, 99, 132)'']"
    by (simp add: comp_def)
  with c(1) c2 c' run(2) canvas(1) show ?thesis by simp
qed

theorem series_color_by_position_counterexample:
  "map expr_value
     (filter (\<lambda>e. \<not> blank e) (expressions (request [[], str ''x''] (Num 0) (Num 1) (Num 2)))) =
   map expr_value
     (filter (\<lambda>e. \<not> blank e) (expressions (request [str ''x''] (Num 0) (Num 1) (Num 2)))) \<and>
   map borderColor
     (datasets (the (chartInstance
        (snd (plotGraph stub (request [[], str ''x''] (Num 0) (Num 1) (Num 2))))))) =
     [getLineColor 1] \<and>
   map borderColor
     (datasets (the (chartInstance
        (snd (plotGraph stub (request [str ''x''] (Num 0) (Num 1) (Num 2))))))) =
     [getLineColor 0] \<and>
   getLineColor 1 \<noteq> getLineColor 0"
  by (simp add: run_simps)

text \<open>
  C8 (amended). When a request is plotted on a mounted canvas, the series of a row has
  point radius 0 exactly when the row's text contains the character \<^verbatim>\<open>x\<close> or the character
  \<^verbatim>\<open>X\<close>, and point radius 3 otherwise.
\<close>

theorem point_radius_by_text:
  assumes "plotGraph P s = (Plotted, s')" and "chartCanvas s"
  shows "\<exists>c. chartInstance s' = Some c \<and>
           map (\<lambda>d. (label d, pointRadius d)) (datasets c) =
             map (\<lambda>e. (str ''y = '' @ expr_value e,
                        if codeUnit CHR ''x'' \<in> set (expr_value e) \<or> codeUnit CHR ''X'' \<in> set (expr_value e)
                        then 0 else 3))
               (filter (\<lambda>e. \<not> blank e) (expressions s))"
proof -
  from assms obtain ds ls where ds: "exprLoop P (sampleDomain P s) (expressions s) 0 [] = Inr ds"
    "chartInstance s' = Some \<lparr>labels = ls, datasets = ds\<rparr>"
    by (rule plotted_chart)
  have "match_xX t \<longleftrightarrow> codeUnit CHR ''x'' \<in> set t \<or> codeUnit CHR ''X'' \<in> set t" for t
    by (auto simp: match_xX_def list_ex_iff)
  with exprLoop_label_radius [OF ds(1)] ds(2) show ?thesis by simp
qed

theorem point_radius_by_text_witness:
  "fst (plotGraph stub (request [str ''x^2'', str ''3''] (Num 0) (Num 1) (Num 2))) = Plotted \<and>
   chartCanvas (request [str ''x^2'', str ''3''] (Num 0) (Num 1) (Num 2)) \<and>
   map (\<lambda>d. (label d, pointRadius d))
     (datasets (the (chartInstance
        (snd (plotGraph stub (request [str ''x^2'', str ''3''] (Num 0) (Num 1) (Num 2))))))) =
     [(str ''y = x^2'', 0), (str ''y = 3'', 3)]"
proof -
  let ?s = "request [str ''x^2'', str ''3''] (Num 0) (Num 1) (Num 2)"
  have run: "plotGraph stub ?s = (fst (plotGraph stub ?s), snd (plotGraph stub ?s))"
    "fst (plotGraph stub ?s) = Plotted"
    by (simp_all add: run_simps)
  have canvas: "chartCanvas ?s"
    and rows: "map (\<lambda>e. (str ''y = '' @ expr_value e,
                        if codeUnit CHR ''x'' \<in> set (expr_value e) \<or> codeUnit CHR ''X'' \<in> set (expr_value e)
                        then 0 else 3))
               (filter (\<lambda>e. \<not> blank e) (expressions ?s)) = [(str ''y = x^2'', 0), (str ''y = 3'', 3::nat)]"
    by (simp_all add: run_simps)
  from point_radius_by_text [OF run(1) [unfolded run(2)] canvas] run(2) canvas show ?thesis
    unfolding rows by auto
qed

theorem point_radius_variable_counterexample:
  "codeUnit CHR ''x'' \<notin> set (str ''X = 3'') \<and>
   fst (plotGraph stub (request [str ''X = 3''] (Num 0) (Num 1) (Num 2))) = Plotted \<and>
   map (\<lambda>d. (label d, data d, pointRadius d))
     (datasets (the (chartInstance
        (snd (plotGraph stub (request [str ''X = 3''] (Num 0) (Num 1) (Num 2))))))) =
     [(str ''y = X = 3'', [Some 3, Some 3], 0)]"
  by (simp add: run_simps)

section \<open>Validation\<close>

text \<open>
  What the range check does reject: a bound that is \<^verbatim>\<open>null\<close>, and numeric bounds with
  \<open>minX \<ge> maxX\<close>, once some expression is non-blank.
\<close>

lemma bad_range_rejected:
  assumes "\<not> noExpression s"
    and "minX s = Null \<or> maxX s = Null \<or> (\<exists>a b. minX s = Num a \<and> maxX s = Num b \<and> b \<le> a)"
  shows "plotGraph P s =
           (BadRange,
            s\<lparr>errorMessage :=
                str ''Min X must be less than Max X, and both must be valid numbers.''\<rparr>)"
proof -
  from assms(2) have "badRange s"
    by (auto simp: badRange_def)
  with assms(1) show ?thesis
    by (simp add: plotGraph_def)
qed

text \<open>
  C5. The claim fails on a request whose upper bound has been cleared. The field then
  holds the empty string, not \<^verbatim>\<open>null\<close>; in \<^verbatim>\<open>minX.value >= maxX.value\<close> it counts as 0, so
  with \<open>minX = -10\<close> the range check passes and the expression is plotted from \<open>-10\<close> to 0.
\<close>

theorem cleared_maxX_is_plotted:
  "maxX (request [str ''x''] (Num (- 10)) EmptyString (Num 3)) = EmptyString \<and>
   \<not> noExpression (request [str ''x''] (Num (- 10)) EmptyString (Num 3)) \<and>
   plotGraph stub (request [str ''x''] (Num (- 10)) EmptyString (Num 3)) =
     (Plotted,
      (request [str ''x''] (Num (- 10)) EmptyString (Num 3))
        \<lparr>chartInstance :=
           Some \<lparr>labels = [str ''-10.00'', str ''-5.00'', str ''0.00''],
                 datasets =
                   [\<lparr>label = str ''y = x'',
                     data = [Some (- 10), Some (- 5), Some 0],
                     borderColor = str ''rgb(75, 192, 192)'',
                     tension = 1 / 10,
                     fill = False,
                     pointRadius = 0,
                     pointHoverRadius = 5\<rparr>]\<rparr>\<rparr>)"
  by (simp add: run_simps)

text \<open>
  C6. Let \<open>n\<close> be the sample count as a number (a cleared field counts as 0). If \<open>n\<close> is
  outside \<open>[2, 1000]\<close>, validation fails and the request ends with only the message
  changed, so nothing has been sampled: at the sample-count return, with the sample-count
  message, unless one of the two checks that come before it has failed, in which case it
  ends at that check's return with that check's message. If \<open>n\<close> is inside \<open>[2, 1000]\<close>, the
  request does not end at the sample-count return.
\<close>

theorem sample_count_check:
  assumes "toNumber (numPoints s) = n"
  shows "(n < 2 \<or> 1000 < n \<longrightarrow>
            plotGraph P s =
              (if noExpression s then
                 (EmptyInput,
                  s\<lparr>errorMessage := str ''Please enter at least one mathematical expression.''\<rparr>)
               else if badRange s then
                 (BadRange,
                  s\<lparr>errorMessage :=
                      str ''Min X must be less than Max X, and both must be valid numbers.''\<rparr>)
               else
                 (BadSampleCount,
                  s\<lparr>errorMessage := str ''Number of points must be between 2 and 1000.''\<rparr>))) \<and>
         (2 \<le> n \<and> n \<le> 1000 \<longrightarrow> fst (plotGraph P s) \<noteq> BadSampleCount)"
proof -
  have count: "badSampleCount s \<longleftrightarrow> n < 2 \<or> 1000 < n"
    using assms by (simp add: badSampleCount_def)
  have inside: "fst (plotGraph P s) \<noteq> BadSampleCount" if "2 \<le> n \<and> n \<le> 1000"
  proof -
    let ?s1 = "s\<lparr>errorMessage := [], loading := True\<rparr>"
    from that count have ok: "\<not> badSampleCount s" by simp
    show ?thesis
    proof (cases "noExpression s \<or> badRange s")
      case True
      then show ?thesis by (auto simp: plotGraph_def)
    next
      case False
      show ?thesis
      proof (cases "exprLoop P (sampleDomain P s) (expressions s) 0 []")
        case (Inl a)
        with False ok exprLoop_abort_exit [of P "sampleDomain P s" "expressions s" 0 "[]"]
        show ?thesis
          by (cases a) (auto simp: plotGraph_def Let_def)
      next
        case (Inr ds)
        with False ok render_exit [of P ?s1 "sampleDomain P s" ds] show ?thesis
          by (auto simp: plotGraph_def Let_def)
      qed
    qed
  qed
  from count inside show ?thesis
    by (simp add: plotGraph_def)
qed

theorem sample_count_check_witness:
  "toNumber (numPoints (request [str ''x''] (Num 0) (Num 1) (Num 1))) = 1 \<and>
   \<not> noExpression (request [str ''x''] (Num 0) (Num 1) (Num 1)) \<and>
   \<not> badRange (request [str ''x''] (Num 0) (Num 1) (Num 1)) \<and>
   plotGraph stub (request [str ''x''] (Num 0) (Num 1) (Num 1)) =
     (BadSampleCount,
      (request [str ''x''] (Num 0) (Num 1) (Num 1))
        \<lparr>errorMessage := str ''Number of points must be between 2 and 1000.''\<rparr>) \<and>
   toNumber (numPoints (request [str ''x''] (Num 0) (Num 1) EmptyString)) = 0 \<and>
   plotGraph stub (request [str ''x''] (Num 0) (Num 1) EmptyString) =
     (BadSampleCount,
      (request [str ''x''] (Num 0) (Num 1) EmptyString)
        \<lparr>errorMessage := str ''Number of points must be between 2 and 1000.''\<rparr>) \<and>
   toNumber (numPoints (request [str ''x''] (Num 0) (Num 1) (Num 1000))) = 1000 \<and>
   fst (plotGraph stub (request [str ''x''] (Num 0) (Num 1) (Num 1000))) \<noteq> BadSampleCount"
proof -
  let ?s = "request [str ''x''] (Num 0) (Num 1) (Num 1)"
  let ?c = "request [str ''x''] (Num 0) (Num 1) EmptyString"
  let ?t = "request [str ''x''] (Num 0) (Num 1) (Num 1000)"
  have s: "toNumber (numPoints ?s) = 1" "\<not> noExpression ?s" "\<not> badRange ?s"
    and c: "toNumber (numPoints ?c) = 0" "\<not> noExpression ?c" "\<not> badRange ?c"
    and t: "toNumber (numPoints ?t) = 1000"
    by (simp_all add: run_simps)
  from sample_count_check [OF s(1), of stub] sample_count_check [OF c(1), of stub]
    sample_count_check [OF t, of stub] s c t
  show ?thesis by simp
qed

section \<open>Blank rows\<close>

text \<open>
  C9. If every row is blank, the request ends at the empty-input return: the message asks
  for an expression and nothing else of the state changes, so no chart is created or
  updated. If some row is non-blank, the request does not end there. If, besides, the range
  and the count are valid and every non-blank row compiles and evaluates without throwing
  at every sampled point, the loop over the rows produces exactly one series for each
  non-blank row, in the order of the rows and with the samples of that row, and none for a
  blank row; on a mounted canvas these series become the datasets of the new chart (when
  the points are numbers; when they are strings, after a cleared lower bound, labelling
  them throws).
\<close>

theorem blank_rows_are_skipped:
  "(noExpression s \<longrightarrow>
      plotGraph P s =
        (EmptyInput,
         s\<lparr>errorMessage := str ''Please enter at least one mathematical expression.''\<rparr>)) \<and>
   (\<not> noExpression s \<longrightarrow> fst (plotGraph P s) \<noteq> EmptyInput) \<and>
   (\<not> noExpression s \<and> \<not> badRange s \<and> \<not> badSampleCount s \<and>
    (\<forall>e\<in>set (expressions s). \<not> blank e \<longrightarrow>
       (\<exists>f. math_compile P (expr_value e) = Inr f \<and>
            (\<forall>x\<in>set (sampleDomain P s). \<exists>y. f x = Inr y))) \<longrightarrow>
      (\<exists>ds. exprLoop P (sampleDomain P s) (expressions s) 0 [] = Inr ds \<and>
         ds =
           map (\<lambda>(k, e).
                  \<lparr>label = str ''y = '' @ expr_value e,
                   data =
                     (case math_compile P (expr_value e) of
                        Inr f \<Rightarrow>
                          map (\<lambda>x. case f x of Inr y \<Rightarrow> ySample y | Inl m \<Rightarrow> None)
                            (sampleDomain P s)
                      | Inl m \<Rightarrow> []),
                   borderColor = getLineColor k,
                   tension = 1 / 10,
                   fill = False,
                   pointRadius =
                     (if codeUnit CHR ''x'' \<in> set (expr_value e) \<or>
                         codeUnit CHR ''X'' \<in> set (expr_value e)
                      then 0 else 3),
                   pointHoverRadius = 5\<rparr>)
             (filter (\<lambda>(k, e). \<not> blank e) (enumerate 0 (expressions s))) \<and>
         (chartCanvas s \<longrightarrow>
            (case labelsOf P (sampleDomain P s) of
               Some ls \<Rightarrow>
                 plotGraph P s =
                   (Plotted,
                    (destroyChart s)
                      \<lparr>errorMessage := [],
                        chartInstance := Some \<lparr>labels = ls, datasets = ds\<rparr>,
                        loading := False\<rparr>)
             | None \<Rightarrow>
                 plotGraph P s =
                   (TypeError, (destroyChart s)\<lparr>errorMessage := [], loading := True\<rparr>)))))"
proof -
  let ?xs = "sampleDomain P s"
  let ?s1 = "s\<lparr>errorMessage := [], loading := True\<rparr>"
  have blank1: "plotGraph P s =
      (EmptyInput,
       s\<lparr>errorMessage := str ''Please enter at least one mathematical expression.''\<rparr>)"
    if "noExpression s"
    using that by (simp add: plotGraph_def)
  have blank2: "fst (plotGraph P s) \<noteq> EmptyInput" if ne: "\<not> noExpression s"
  proof (cases "badRange s \<or> badSampleCount s")
    case True
    with ne show ?thesis by (auto simp: plotGraph_def)
  next
    case False
    show ?thesis
    proof (cases "exprLoop P ?xs (expressions s) 0 []")
      case (Inl a)
      with ne False exprLoop_abort_exit [of P ?xs "expressions s" 0 "[]"]
      show ?thesis
        by (cases a) (auto simp: plotGraph_def Let_def)
    next
      case (Inr ds)
      with ne False render_exit [of P ?s1 ?xs ds] show ?thesis
        by (auto simp: plotGraph_def Let_def)
    qed
  qed
  have series: "\<exists>ds. exprLoop P ?xs (expressions s) 0 [] = Inr ds \<and>
         ds =
           map (\<lambda>(k, e).
                  \<lparr>label = str ''y = '' @ expr_value e,
                   data =
                     (case math_compile P (expr_value e) of
                        Inr f \<Rightarrow>
                          map (\<lambda>x. case f x of Inr y \<Rightarrow> ySample y | Inl m \<Rightarrow> None) ?xs
                      | Inl m \<Rightarrow> []),
                   borderColor = getLineColor k,
                   tension = 1 / 10,
                   fill = False,
                   pointRadius =
                     (if codeUnit CHR ''x'' \<in> set (expr_value e) \<or>
                         codeUnit CHR ''X'' \<in> set (expr_value e)
                      then 0 else 3),
                   pointHoverRadius = 5\<rparr>)
             (filter (\<lambda>(k, e). \<not> blank e) (enumerate 0 (expressions s))) \<and>
         (chartCanvas s \<longrightarrow>
            (case labelsOf P ?xs of
               Some ls \<Rightarrow>
                 plotGraph P s =
                   (Plotted,
                    (destroyChart s)
                      \<lparr>errorMessage := [],
                        chartInstance := Some \<lparr>labels = ls, datasets = ds\<rparr>,
                        loading := False\<rparr>)
             | None \<Rightarrow>
                 plotGraph P s =
                   (TypeError, (destroyChart s)\<lparr>errorMessage := [], loading := True\<rparr>)))"
    if hyp: "\<not> noExpression s \<and> \<not> badRange s \<and> \<not> badSampleCount s \<and>
      (\<forall>e\<in>set (expressions s). \<not> blank e \<longrightarrow>
         (\<exists>f. math_compile P (expr_value e) = Inr f \<and> (\<forall>x\<in>set ?xs. \<exists>y. f x = Inr y)))"
  proof -
    from hyp have valid: "\<not> noExpression s" "\<not> badRange s" "\<not> badSampleCount s"
      and ok: "\<forall>e\<in>set (expressions s). \<not> blank e \<longrightarrow>
         (\<exists>f. math_compile P (expr_value e) = Inr f \<and> (\<forall>x\<in>set ?xs. \<exists>y. f x = Inr y))"
      by simp_all
    define ds where "ds =
      map (\<lambda>(k, e).
             \<lparr>label = str ''y = '' @ expr_value e,
              data =
                (case math_compile P (expr_value e) of
                   Inr f \<Rightarrow> map (\<lambda>x. case f x of Inr y \<Rightarrow> ySample y | Inl m \<Rightarrow> None) ?xs
                 | Inl m \<Rightarrow> []),
              borderColor = getLineColor k,
              tension = 1 / 10,
              fill = False,
              pointRadius = (if match_xX (expr_value e) then 0 else 3),
              pointHoverRadius = 5\<rparr>)
        (filter (\<lambda>(k, e). \<not> blank e) (enumerate 0 (expressions s)))"
    have loop: "exprLoop P ?xs (expressions s) 0 [] = Inr ds"
      using exprLoop_series [OF ok, of 0 "[]"] by (simp add: ds_def)
    with valid(1) have ne: "ds \<noteq> []"
      by (auto simp: noExpression_def dest: exprLoop_nonempty)
    have run: "plotGraph P s = render P ?s1 ?xs ds"
      using valid loop by (simp add: plotGraph_def Let_def)
    have destroy: "destroyChart ?s1 = (destroyChart s)\<lparr>errorMessage := [], loading := True\<rparr>"
      by (simp add: destroyChart_def split: option.splits)
    have plot: "chartCanvas s \<longrightarrow>
         (case labelsOf P ?xs of
               Some ls \<Rightarrow>
                 plotGraph P s =
                   (Plotted,
                    (destroyChart s)
                      \<lparr>errorMessage := [],
                        chartInstance := Some \<lparr>labels = ls, datasets = ds\<rparr>,
                        loading := False\<rparr>)
             | None \<Rightarrow>
                 plotGraph P s =
                   (TypeError, (destroyChart s)\<lparr>errorMessage := [], loading := True\<rparr>))"
      using ne run destroy by (simp add: render_def Let_def split: option.splits)
    from loop plot show ?thesis
      unfolding ds_def match_xX_iff by blast
  qed
  from blank1 blank2 series show ?thesis by blast
qed

theorem blank_rows_are_skipped_witness:
  "noExpression (request [[], str ''  '', [0x00A0, 0x3000]] (Num 0) (Num 1) (Num 2)) \<and>
   plotGraph stub (request [[], str ''  '', [0x00A0, 0x3000]] (Num 0) (Num 1) (Num 2)) =
     (EmptyInput,
      (request [[], str ''  '', [0x00A0, 0x3000]] (Num 0) (Num 1) (Num 2))
        \<lparr>errorMessage := str ''Please enter at least one mathematical expression.''\<rparr>) \<and>
   \<not> noExpression (request [str ''x'', []] (Num 0) (Num 1) (Num 2)) \<and>
   plotGraph stub (request [str ''x'', []] (Num 0) (Num 1) (Num 2)) =
     (Plotted,
      (request [str ''x'', []] (Num 0) (Num 1) (Num 2))
        \<lparr>chartInstance :=
           Some \<lparr>labels = [str ''0.00'', str ''1.00''],
                 datasets =
                   [\<lparr>label = str ''y = x'',
                     data = [Some 0, Some 1],
                     borderColor = str ''rgb(75, 192, 192)'',
                     tension = 1 / 10,
                     fill = False,
                     pointRadius = 0,
                     pointHoverRadius = 5\<rparr>]\<rparr>\<rparr>)"
proof -
  let ?b = "request [[], str ''  '', [0x00A0, 0x3000]] (Num 0) (Num 1) (Num 2)"
  let ?s = "request [str ''x'', []] (Num 0) (Num 1) (Num 2)"
  have b: "noExpression ?b"
    and valid: "\<not> noExpression ?s" "\<not> badRange ?s" "\<not> badSampleCount ?s" "chartCanvas ?s"
    by (simp_all add: run_simps)
  have ok: "\<forall>e\<in>set (expressions ?s). \<not> blank e \<longrightarrow>
       (\<exists>f. math_compile stub (expr_value e) = Inr f \<and>
            (\<forall>x\<in>set (sampleDomain stub ?s). \<exists>y. f x = Inr y))"
    by (auto simp: run_simps)
  from blank_rows_are_skipped [of ?b stub] b
  have first: "plotGraph stub ?b =
     (EmptyInput,
      ?b\<lparr>errorMessage := str ''Please enter at least one mathematical expression.''\<rparr>)"
    by blast
  from blank_rows_are_skipped [of ?s stub] valid ok
  obtain ds where ds: "ds =
           map (\<lambda>(k, e).
                  \<lparr>label = str ''y = '' @ expr_value e,
                   data =
                     (case math_compile stub (expr_value e) of
                        Inr f \<Rightarrow>
                          map (\<lambda>x. case f x of Inr y \<Rightarrow> ySample y | Inl m \<Rightarrow> None)
                            (sampleDomain stub ?s)
                      | Inl m \<Rightarrow> []),
                   borderColor = getLineColor k,
                   tension = 1 / 10,
                   fill = False,
                   pointRadius =
                     (if codeUnit CHR ''x'' \<in> set (expr_value e) \<or>
                         codeUnit CHR ''X'' \<in> set (expr_value e)
                      then 0 else 3),
                   pointHoverRadius = 5\<rparr>)
             (filter (\<lambda>(k, e). \<not> blank e) (enumerate 0 (expressions ?s)))"
    and plot: "case labelsOf stub (sampleDomain stub ?s) of
               Some ls \<Rightarrow>
                 plotGraph stub ?s =
                   (Plotted,
                    (destroyChart ?s)
                      \<lparr>errorMessage := [],
                        chartInstance := Some \<lparr>labels = ls, datasets = ds\<rparr>,
                        loading := False\<rparr>)
             | None \<Rightarrow>
                 plotGraph stub ?s =
                   (TypeError, (destroyChart ?s)\<lparr>errorMessage := [], loading := True\<rparr>)"
    by blast
  have "ds = [\<lparr>label = str ''y = x'',
                     data = [Some 0, Some 1],
                     borderColor = str ''rgb(75, 192, 192)'',
                     tension = 1 / 10,
                     fill = False,
                     pointRadius = 0,
                     pointHoverRadius = 5\<rparr>]"
    unfolding ds by (simp add: run_simps)
  moreover have "labelsOf stub (sampleDomain stub ?s) = Some [str ''0.00'', str ''1.00'']"
    by (simp add: run_simps)
  ultimately have "plotGraph stub ?s =
     (Plotted,
      ?s\<lparr>chartInstance :=
           Some \<lparr>labels = [str ''0.00'', str ''1.00''],
                 datasets =
                   [\<lparr>label = str ''y = x'',
                     data = [Some 0, Some 1],
                     borderColor = str ''rgb(75, 192, 192)'',
                     tension = 1 / 10,
                     fill = False,
                     pointRadius = 0,
                     pointHoverRadius = 5\<rparr>]\<rparr>\<rparr>)"
    using plot by (simp add: request_def destroyChart_def)
  with b valid(1) first show ?thesis by simp
qed

section \<open>Further facts about a request\<close>

text \<open>
  With the state unchanged across the \<^verbatim>\<open>await\<close>, a request never ends in the branch for an
  empty list of datasets: validation has found a non-blank row, and every non-blank row
  either contributes a dataset or ends the request.
\<close>

lemma plotGraph_never_NoValidExpressions:
  "fst (plotGraph P s) \<noteq> NoValidExpressions"
proof -
  let ?s1 = "s\<lparr>errorMessage := [], loading := True\<rparr>"
  show ?thesis
  proof (cases "noExpression s \<or> badRange s \<or> badSampleCount s")
    case True
    then show ?thesis by (auto simp: plotGraph_def)
  next
    case False
    show ?thesis
    proof (cases "exprLoop P (sampleDomain P s) (expressions s) 0 []")
      case (Inl a)
      with False exprLoop_abort_exit [of P "sampleDomain P s" "expressions s" 0 "[]"]
      show ?thesis
        by (cases a) (auto simp: plotGraph_def Let_def)
    next
      case (Inr ds)
      with False have "ds \<noteq> []"
        by (auto simp: noExpression_def dest: exprLoop_nonempty)
      with False Inr show ?thesis
        by (simp add: plotGraph_def render_def Let_def split: option.splits)
    qed
  qed
qed

text \<open>
  A sample count that is not whole passes validation when it lies in \<open>[2, 1000]\<close>; the loop
  then runs while \<open>i < numPoints\<close>, so it takes one point more than the count rounded down
  and the last point lies beyond \<open>maxX\<close>.
\<close>

lemma fractional_count_overshoots:
  "sampleDomain stub (request [str ''x''] (Num 0) (Num 3) (Num (5 / 2))) =
     [XNum (Finite 0), XNum (Finite 2), XNum (Finite 4)]"
  by (simp add: run_simps)

text \<open>The scenario of the specification: \<^verbatim>\<open>x^2\<close> on \<open>[-2, 2]\<close> with five points.\<close>

lemma square_scenario:
  "plotGraph stub (request [str ''x^2''] (Num (- 2)) (Num 2) (Num 5)) =
     (Plotted,
      (request [str ''x^2''] (Num (- 2)) (Num 2) (Num 5))
        \<lparr>chartInstance :=
           Some \<lparr>labels = [str ''-2.00'', str ''-1.00'', str ''0.00'', str ''1.00'', str ''2.00''],
                 datasets =
                   [\<lparr>label = str ''y = x^2'',
                     data = [Some 4, Some 1, Some 0, Some 1, Some 4],
                     borderColor = str ''rgb(75, 192, 192)'',
                     tension = 1 / 10,
                     fill = False,
                     pointRadius = 0,
                     pointHoverRadius = 5\<rparr>]\<rparr>\<rparr>)"
  by (simp add: run_simps)

end
